theory Spec2Isabelle
  imports Main
begin

section \<open>Required route annotations: the HSTS admission check\<close>

text \<open>
  A shallow embedding of the decision logic of the admission plugin
  \<^verbatim>\<open>route.openshift.io/RequiredRouteAnnotations\<close>: the functions
  \<^verbatim>\<open>isRouteHSTSAllowed\<close>, \<^verbatim>\<open>hstsConfigFromRoute\<close>, \<^verbatim>\<open>meetsRequirements\<close>,
  \<^verbatim>\<open>requiredNamespaceDomainMatchesRoute\<close>, \<^verbatim>\<open>matchesDomain\<close> and
  \<^verbatim>\<open>matchesNamespaceSelector\<close>. Go strings are byte strings (\<^typ>\<open>string\<close>); an
  \<^verbatim>\<open>int32\<close> is an \<^typ>\<open>int\<close> whose range is checked where the code checks it
  (\<^verbatim>\<open>strconv.ParseInt\<close>) and on which the code only compares; a Go \<^verbatim>\<open>error\<close>
  result is an \<open>error option\<close> (\<^verbatim>\<open>nil\<close> is \<open>None\<close>); a panic is a value of its own.
\<close>

subsection \<open>Data\<close>

type_synonym labels = "string \<rightharpoonup> string"

text \<open>\<^verbatim>\<open>metav1.LabelSelector\<close> and \<^verbatim>\<open>metav1.LabelSelectorRequirement\<close>.\<close>

record LabelSelectorRequirement =
  Key :: string
  Operator :: string
  Values :: "string list"

record LabelSelector =
  MatchLabels :: "(string \<times> string) list"
  MatchExpressions :: "LabelSelectorRequirement list"

text \<open>
  \<^verbatim>\<open>configv1.PreloadPolicy\<close> and \<^verbatim>\<open>configv1.IncludeSubDomainsPolicy\<close> are string
  types with three named values each. The last constructor stands for every other string
  (the zero value \<^verbatim>\<open>""\<close> among them), which the \<^verbatim>\<open>switch\<close> statements of
  \<^verbatim>\<open>meetsRequirements\<close> pass over, having no \<^verbatim>\<open>default\<close> branch.
\<close>

datatype PreloadPolicy =
    NoOpinionPreloadPolicy
  | RequirePreloadPolicy
  | RequireNoPreloadPolicy
  | OtherPreloadPolicy string

datatype IncludeSubDomainsPolicy =
    NoOpinionIncludeSubDomains
  | RequireIncludeSubDomains
  | RequireNoIncludeSubDomains
  | OtherIncludeSubDomains string

text \<open>\<^verbatim>\<open>configv1.MaxAgePolicy\<close>: both bounds are \<^verbatim>\<open>*int32\<close>.\<close>

record MaxAgePolicy =
  LargestMaxAge :: "int option"
  SmallestMaxAge :: "int option"

record RequiredHSTSPolicy =
  NamespaceSelector :: "LabelSelector option"
  DomainPatterns :: "string list"
  MaxAge :: MaxAgePolicy
  PreloadPolicy :: PreloadPolicy
  IncludeSubDomainsPolicy :: IncludeSubDomainsPolicy

text \<open>Of \<^verbatim>\<open>configv1.Ingress\<close> the code reads \<^verbatim>\<open>ingress.Spec.RequiredHSTSPolicies\<close> only.\<close>

record Ingress =
  RequiredHSTSPolicies :: "RequiredHSTSPolicy list"

text \<open>
  The part of \<^verbatim>\<open>routeapi.Route\<close> that the code reads. \<^verbatim>\<open>Spec.TLS\<close> is a pointer
  (\<open>None\<close> is \<^verbatim>\<open>nil\<close>); \<^verbatim>\<open>TLSTerminationType\<close> is a string type. The host of a
  \<^verbatim>\<open>RouteIngress\<close> is named \<open>IngressHost\<close> here, \<open>Host\<close> being the field of the spec.
\<close>

record TLSConfig =
  Termination :: string

record RouteSpec =
  Host :: string
  TLS :: "TLSConfig option"

record RouteIngress =
  IngressHost :: string

record RouteStatus =
  Ingress :: "RouteIngress list"

record Route =
  Name :: string
  Annotations :: "string \<rightharpoonup> string"
  Spec :: RouteSpec
  Status :: RouteStatus

record Namespace =
  Labels :: labels

record hstsConfig =
  maxAge :: int
  preload :: bool
  includeSubDomains :: bool

subsection \<open>Constants\<close>

definition hstsAnnotation :: string where
  "hstsAnnotation = ''haproxy.router.openshift.io/hsts_header''"

text \<open>
  Modelled from the spec: the values of the constants \<^verbatim>\<open>TLSTerminationEdge\<close> and
  \<^verbatim>\<open>TLSTerminationReencrypt\<close>, declared in the route API packages, which are not among
  the source files. The spec gives the message built from them as
  "termination type is empty, must be edge or reencrypt".
\<close>

definition TLSTerminationEdge :: string where
  "TLSTerminationEdge = ''edge''"

definition TLSTerminationReencrypt :: string where
  "TLSTerminationReencrypt = ''reencrypt''"

subsection \<open>Errors and panics\<close>

text \<open>
  One constructor for each error value the code builds, with the data its message holds.
  \<open>SelectorError\<close> carries the message of the error that
  \<^verbatim>\<open>metav1.LabelSelectorAsSelector\<close> returned, \<open>ParseIntRange\<close> the digits that
  \<^verbatim>\<open>strconv.ParseInt\<close> found out of range.
\<close>

datatype error =
    TerminationEmpty
  | MaxAgeNotSet
  | ParseIntRange string
  | MaxAgeTooLarge int
  | MaxAgeTooSmall int
  | PreloadRequired
  | PreloadForbidden
  | IncludeSubDomainsRequired
  | IncludeSubDomainsForbidden
  | SelectorError string

text \<open>A call either returns or panics (\<^verbatim>\<open>regexp.MustCompile\<close> on an invalid expression).\<close>

datatype 'a outcome = Returns 'a | Panics

text \<open>Decimal rendering, as \<^verbatim>\<open>%d\<close> prints an integer.\<close>

fun utoa :: "nat \<Rightarrow> string" where
  "utoa n = (if n < 10 then [''0123456789'' ! n]
             else utoa (n div 10) @ [''0123456789'' ! (n mod 10)])"

definition itoa :: "int \<Rightarrow> string" where
  "itoa i = (if i < 0 then CHR ''-'' # utoa (nat (- i)) else utoa (nat i))"

text \<open>The message of each error (\<^verbatim>\<open>err.Error()\<close>), as the format strings build it.\<close>

fun Error :: "error \<Rightarrow> string" where
  "Error TerminationEmpty =
     ''termination type is empty, must be '' @ TLSTerminationEdge @ '' or '' @ TLSTerminationReencrypt"
| "Error MaxAgeNotSet = ''max-age must be set in HSTS annotation''"
| "Error (ParseIntRange s) =
     ''strconv.ParseInt: parsing '' @ [CHR 0x22] @ s @ [CHR 0x22] @ '': value out of range''"
| "Error (MaxAgeTooLarge n) = ''does not match maximum age '' @ itoa n"
| "Error (MaxAgeTooSmall n) = ''does not match minimum age '' @ itoa n"
| "Error PreloadRequired = ''preload must be specified''"
| "Error PreloadForbidden = ''preload must not be specified''"
| "Error IncludeSubDomainsRequired = ''includeSubDomains must be specified''"
| "Error IncludeSubDomainsForbidden = ''includeSubDomains must not be specified''"
| "Error (SelectorError m) = m"

subsection \<open>The libraries the code calls\<close>

text \<open>
  The regular-expression engine, the label-selector parser and the Unicode case tables
  belong to libraries outside the repository, so the model takes them as a parameter.
  \<^item> \<open>MustCompile e\<close> is \<open>None\<close> when \<^verbatim>\<open>regexp.MustCompile(e)\<close> panics, and otherwise
    the \<^verbatim>\<open>MatchString\<close> of the compiled expression.
  \<^item> \<open>LabelSelectorAsSelector s\<close> is \<open>Inl m\<close> when \<^verbatim>\<open>metav1.LabelSelectorAsSelector\<close>
    returns an error with message \<open>m\<close>, and otherwise the \<^verbatim>\<open>Matches\<close> of the selector.
  \<^item> \<open>ToLowerUnicode s\<close> is \<^verbatim>\<open>strings.ToLower(s)\<close> for a string \<open>s\<close> that has a byte
    beyond ASCII, and \<open>EqualFoldUnicode s t\<close> is \<^verbatim>\<open>strings.EqualFold(s, t)\<close> when one of
    the two strings has such a byte.
\<close>

record lib =
  MustCompile :: "string \<Rightarrow> (string \<Rightarrow> bool) option"
  LabelSelectorAsSelector :: "LabelSelector \<Rightarrow> string + (labels \<Rightarrow> bool)"
  ToLowerUnicode :: "string \<Rightarrow> string"
  EqualFoldUnicode :: "string \<Rightarrow> string \<Rightarrow> bool"

subsection \<open>String functions of the Go library\<close>

text \<open>A string is ASCII when no byte of it has its highest bit set.\<close>

definition isASCII :: "string \<Rightarrow> bool" where
  "isASCII s = list_all (\<lambda>c. digit7 c = False) s"

definition toLowerChar :: "char \<Rightarrow> char" where
  "toLowerChar c =
     (case map_of (zip ''ABCDEFGHIJKLMNOPQRSTUVWXYZ'' ''abcdefghijklmnopqrstuvwxyz'') c of
        Some l \<Rightarrow> l
      | None \<Rightarrow> c)"

text \<open>
  \<^verbatim>\<open>strings.ToLower\<close> and \<^verbatim>\<open>strings.EqualFold\<close>. On ASCII strings they map the
  letters \<open>A\<close> to \<open>Z\<close> to \<open>a\<close> to \<open>z\<close> and keep every other byte; on a string with a
  byte beyond ASCII they follow the Unicode tables, which the library parameter holds.
\<close>

definition ToLower :: "lib \<Rightarrow> string \<Rightarrow> string" where
  "ToLower L s = (if isASCII s then map toLowerChar s else ToLowerUnicode L s)"

definition EqualFold :: "lib \<Rightarrow> string \<Rightarrow> string \<Rightarrow> bool" where
  "EqualFold L s t =
     (if isASCII s \<and> isASCII t then map toLowerChar s = map toLowerChar t
      else EqualFoldUnicode L s t)"

text \<open>\<^verbatim>\<open>strings.ReplaceAll(s, " ", "")\<close>.\<close>

definition removeSpaces :: "string \<Rightarrow> string" where
  "removeSpaces s = filter (\<lambda>c. c \<noteq> CHR '' '') s"

text \<open>
  \<^verbatim>\<open>strings.Split(s, sep)\<close> for a separator of one byte: the pieces between the
  separators, one more than there are separators.
\<close>

fun Split :: "string \<Rightarrow> char \<Rightarrow> string list" where
  "Split [] sep = [[]]"
| "Split (c # cs) sep =
     (if c = sep then [] # Split cs sep
      else (case Split cs sep of
              [] \<Rightarrow> [[c]]
            | t # ts \<Rightarrow> (c # t) # ts))"

definition isDigit :: "char \<Rightarrow> bool" where
  "isDigit c = (c \<in> set ''0123456789'')"

definition digitValue :: "char \<Rightarrow> int" where
  "digitValue c = (case map_of (zip ''0123456789'' [0, 1, 2, 3, 4, 5, 6, 7, 8, 9]) c of
                     Some d \<Rightarrow> d
                   | None \<Rightarrow> 0)"

definition decimalValue :: "string \<Rightarrow> int" where
  "decimalValue ds = foldl (\<lambda>n c. 10 * n + digitValue c) 0 ds"

fun stripPrefix :: "string \<Rightarrow> string \<Rightarrow> string option" where
  "stripPrefix [] s = Some s"
| "stripPrefix (p # ps) [] = None"
| "stripPrefix (p # ps) (c # cs) = (if p = c then stripPrefix ps cs else None)"

text \<open>
  \<^verbatim>\<open>regexp.MustCompile(`max-age=(\d+)`).FindStringSubmatch(s)\<close>: the expression is fixed
  and valid, so this call is modelled in full. The leftmost match is the first position
  where \<^verbatim>\<open>max-age=\<close> is followed by a digit; the group is the longest run of ASCII
  digits there. The result is the group (\<^verbatim>\<open>match[1]\<close>), \<open>None\<close> when there is no match.
\<close>

fun findMaxAge :: "string \<Rightarrow> string option" where
  "findMaxAge [] = None"
| "findMaxAge (c # cs) =
     (case stripPrefix ''max-age='' (c # cs) of
        None \<Rightarrow> findMaxAge cs
      | Some rest \<Rightarrow>
          (if takeWhile isDigit rest = [] then findMaxAge cs
           else Some (takeWhile isDigit rest)))"

text \<open>
  \<^verbatim>\<open>strconv.ParseInt(s, 10, 32)\<close> on a non-empty string of digits: the value, or a
  range error when it is beyond the largest \<^verbatim>\<open>int32\<close>.
\<close>

definition ParseInt32 :: "string \<Rightarrow> error + int" where
  "ParseInt32 s = (if decimalValue s > 2147483647 then Inl (ParseIntRange s)
                   else Inr (decimalValue s))"

subsection \<open>The annotation parser\<close>

definition annotationValue :: "Route \<Rightarrow> string" where
  "annotationValue route = (case Annotations route hstsAnnotation of None \<Rightarrow> [] | Some v \<Rightarrow> v)"

definition normalizeValue :: "lib \<Rightarrow> string \<Rightarrow> string" where
  "normalizeValue L v = ToLower L (removeSpaces v)"

text \<open>The body of the loop over the tokens.\<close>

definition readToken :: "lib \<Rightarrow> hstsConfig \<Rightarrow> string \<Rightarrow> hstsConfig" where
  "readToken L ret token =
     (let ret1 = (if EqualFold L token ''includeSubDomains''
                  then ret\<lparr>includeSubDomains := True\<rparr> else ret);
          ret2 = (if EqualFold L token ''preload'' then ret1\<lparr>preload := True\<rparr> else ret1)
      in ret2)"

text \<open>
  The result is the pair the Go function returns: the pointer (\<open>None\<close> is \<^verbatim>\<open>nil\<close>) and
  the error.
\<close>

definition hstsConfigFromRoute :: "lib \<Rightarrow> Route \<Rightarrow> hstsConfig option \<times> error option" where
  "hstsConfigFromRoute L route =
     (let trimmed = normalizeValue L (annotationValue route);
          tokens = Split trimmed CHR '';'';
          ret = foldl (readToken L) \<lparr>maxAge = 0, preload = False, includeSubDomains = False\<rparr>
                  tokens
      in case findMaxAge trimmed of
           Some digits \<Rightarrow>
             (case ParseInt32 digits of
                Inl err \<Rightarrow> (None, Some err)
              | Inr age \<Rightarrow> (Some (ret\<lparr>maxAge := age\<rparr>), None))
         | None \<Rightarrow> (None, Some MaxAgeNotSet))"

subsection \<open>The validator\<close>

definition checkLargest :: "hstsConfig \<Rightarrow> RequiredHSTSPolicy \<Rightarrow> error option" where
  "checkLargest c requirement =
     (case LargestMaxAge (MaxAge requirement) of
        Some largest \<Rightarrow>
          (if largest \<ge> 0 \<and> maxAge c > largest then Some (MaxAgeTooLarge largest) else None)
      | None \<Rightarrow> None)"

definition checkSmallest :: "hstsConfig \<Rightarrow> RequiredHSTSPolicy \<Rightarrow> error option" where
  "checkSmallest c requirement =
     (case SmallestMaxAge (MaxAge requirement) of
        Some smallest \<Rightarrow>
          (if smallest \<ge> 0 \<and> maxAge c < smallest then Some (MaxAgeTooSmall smallest) else None)
      | None \<Rightarrow> None)"

definition checkPreload :: "hstsConfig \<Rightarrow> RequiredHSTSPolicy \<Rightarrow> error option" where
  "checkPreload c requirement =
     (case PreloadPolicy requirement of
        NoOpinionPreloadPolicy \<Rightarrow> None
      | RequirePreloadPolicy \<Rightarrow> (if preload c then None else Some PreloadRequired)
      | RequireNoPreloadPolicy \<Rightarrow> (if preload c then Some PreloadForbidden else None)
      | OtherPreloadPolicy _ \<Rightarrow> None)"

definition checkIncludeSubDomains :: "hstsConfig \<Rightarrow> RequiredHSTSPolicy \<Rightarrow> error option" where
  "checkIncludeSubDomains c requirement =
     (case IncludeSubDomainsPolicy requirement of
        NoOpinionIncludeSubDomains \<Rightarrow> None
      | RequireIncludeSubDomains \<Rightarrow>
          (if includeSubDomains c then None else Some IncludeSubDomainsRequired)
      | RequireNoIncludeSubDomains \<Rightarrow>
          (if includeSubDomains c then Some IncludeSubDomainsForbidden else None)
      | OtherIncludeSubDomains _ \<Rightarrow> None)"

text \<open>The four checks in the order of the code; the first error is returned.\<close>

definition meetsRequirements :: "hstsConfig \<Rightarrow> RequiredHSTSPolicy \<Rightarrow> error option" where
  "meetsRequirements c requirement =
     (case checkLargest c requirement of
        Some err \<Rightarrow> Some err
      | None \<Rightarrow>
     (case checkSmallest c requirement of
        Some err \<Rightarrow> Some err
      | None \<Rightarrow>
     (case checkPreload c requirement of
        Some err \<Rightarrow> Some err
      | None \<Rightarrow> checkIncludeSubDomains c requirement)))"

subsection \<open>Matching a requirement\<close>

text \<open>
  Every expression is compiled when its turn comes, so an invalid one panics unless an
  earlier one has matched.
\<close>

fun matchesDomain :: "lib \<Rightarrow> string list \<Rightarrow> string list \<Rightarrow> bool outcome" where
  "matchesDomain L [] domains = Returns False"
| "matchesDomain L (matcher # rest) domains =
     (case MustCompile L (''^'' @ matcher @ ''$'') of
        None \<Rightarrow> Panics
      | Some match \<Rightarrow>
          (if list_ex match domains then Returns True else matchesDomain L rest domains))"

definition matchesNamespaceSelector ::
  "lib \<Rightarrow> LabelSelector option \<Rightarrow> Namespace \<Rightarrow> bool \<times> error option" where
  "matchesNamespaceSelector L nsSelector namespace =
     (case nsSelector of
        None \<Rightarrow> (True, None)
      | Some sel \<Rightarrow>
          (case LabelSelectorAsSelector L sel of
             Inl m \<Rightarrow> (False, Some (SelectorError m))
           | Inr selector \<Rightarrow> (selector (Labels namespace), None)))"

definition routeDomains :: "Route \<Rightarrow> string list" where
  "routeDomains route = Host (Spec route) # map IngressHost (Ingress (Status route))"

definition requiredNamespaceDomainMatchesRoute ::
  "lib \<Rightarrow> RequiredHSTSPolicy \<Rightarrow> Route \<Rightarrow> Namespace \<Rightarrow> (bool \<times> bool \<times> error option) outcome" where
  "requiredNamespaceDomainMatchesRoute L requirement route namespace =
     (case matchesNamespaceSelector L (NamespaceSelector requirement) namespace of
        (matchesNamespace, Some err) \<Rightarrow> Returns (False, False, Some err)
      | (matchesNamespace, None) \<Rightarrow>
          (case matchesDomain L (DomainPatterns requirement) (routeDomains route) of
             Panics \<Rightarrow> Panics
           | Returns matchesDom \<Rightarrow> Returns (matchesNamespace, matchesDom, None)))"

subsection \<open>The evaluator\<close>

text \<open>The loop of \<^verbatim>\<open>isRouteHSTSAllowed\<close> over the requirements.\<close>

fun checkRequirements ::
  "lib \<Rightarrow> RequiredHSTSPolicy list \<Rightarrow> Route \<Rightarrow> Namespace \<Rightarrow> error option outcome" where
  "checkRequirements L [] newRoute namespace = Returns None"
| "checkRequirements L (requirement # requirements) newRoute namespace =
     (case requiredNamespaceDomainMatchesRoute L requirement newRoute namespace of
        Panics \<Rightarrow> Panics
      | Returns (matchesReqNamespace, matchesReqDomain, Some err) \<Rightarrow> Returns (Some err)
      | Returns (matchesReqNamespace, matchesReqDomain, None) \<Rightarrow>
          (if \<not> (matchesReqNamespace \<and> matchesReqDomain)
           then checkRequirements L requirements newRoute namespace
           else (case hstsConfigFromRoute L newRoute of
                   (routeHSTS, Some err) \<Rightarrow> Returns (Some err)
                 | (Some routeHSTS, None) \<Rightarrow> Returns (meetsRequirements routeHSTS requirement)
                 | (None, None) \<Rightarrow> Returns None)))"

definition isRouteHSTSAllowed ::
  "lib \<Rightarrow> Ingress \<Rightarrow> Route \<Rightarrow> Namespace \<Rightarrow> error option outcome" where
  "isRouteHSTSAllowed L ingress newRoute namespace =
     (case TLS (Spec newRoute) of
        Some tls \<Rightarrow>
          (if Termination tls = TLSTerminationEdge \<or> Termination tls = TLSTerminationReencrypt
           then checkRequirements L (RequiredHSTSPolicies ingress) newRoute namespace
           else Returns None)
      | None \<Rightarrow> Returns (Some TerminationEmpty))"

subsection \<open>Notions used to state the properties\<close>

text \<open>
  The loop finds that a requirement matches the route when
  \<^verbatim>\<open>requiredNamespaceDomainMatchesRoute\<close> returns without error and both its results
  are true.
\<close>

definition matchesRoute :: "lib \<Rightarrow> Route \<Rightarrow> Namespace \<Rightarrow> RequiredHSTSPolicy \<Rightarrow> bool" where
  "matchesRoute L route namespace requirement =
     (requiredNamespaceDomainMatchesRoute L requirement route namespace
        = Returns (True, True, None))"

text \<open>
  The loop passes over a requirement (the \<^verbatim>\<open>continue\<close>) when the call returns without
  error and one of its results is false.
\<close>

definition passesOver :: "lib \<Rightarrow> Route \<Rightarrow> Namespace \<Rightarrow> RequiredHSTSPolicy \<Rightarrow> bool" where
  "passesOver L route namespace requirement =
     (case requiredNamespaceDomainMatchesRoute L requirement route namespace of
        Panics \<Rightarrow> False
      | Returns (matchesReqNamespace, matchesReqDomain, Some err) \<Rightarrow> False
      | Returns (matchesReqNamespace, matchesReqDomain, None) \<Rightarrow>
          (if matchesReqNamespace then (if matchesReqDomain then False else True) else True))"

text \<open>The TLS termination of the route is edge or reencrypt.\<close>

definition terminatesTLS :: "Route \<Rightarrow> bool" where
  "terminatesTLS route =
     (case TLS (Spec route) of
        None \<Rightarrow> False
      | Some tls \<Rightarrow>
          (if Termination tls = TLSTerminationEdge then True
           else Termination tls = TLSTerminationReencrypt))"

text \<open>
  What the evaluator returns once the loop has found the requirement that matches: the
  error of the parser, or else the verdict of the validator on that requirement.
\<close>

definition verdict :: "lib \<Rightarrow> Route \<Rightarrow> RequiredHSTSPolicy \<Rightarrow> error option" where
  "verdict L route requirement =
     (case hstsConfigFromRoute L route of
        (routeHSTS, Some err) \<Rightarrow> Some err
      | (Some routeHSTS, None) \<Rightarrow> meetsRequirements routeHSTS requirement
      | (None, None) \<Rightarrow> None)"

text \<open>A bound that is unset or negative.\<close>

definition boundOff :: "int option \<Rightarrow> bool" where
  "boundOff b = (case b of None \<Rightarrow> True | Some n \<Rightarrow> n < 0)"

text \<open>A requirement with both bounds on the age taken away.\<close>

definition unbounded :: "RequiredHSTSPolicy \<Rightarrow> RequiredHSTSPolicy" where
  "unbounded requirement =
     requirement\<lparr>MaxAge := \<lparr>LargestMaxAge = None, SmallestMaxAge = None\<rparr>\<rparr>"

subsection \<open>A small instance of the libraries, and example inputs\<close>

text \<open>
  The theorems below hold for every library. To run the model on concrete inputs, here is
  an instance that knows a fragment of each library and is used on that fragment only:
  \<^item> expressions \<^verbatim>\<open>^p$\<close> where \<open>p\<close> is made of lower-case letters, digits, hyphens
    and dots, a dot standing for any byte but a newline; every other expression is
    refused, among them \<^verbatim>\<open>^($\<close>, which Go refuses too (a missing parenthesis);
  \<^item> selectors whose expressions have the operators \<^verbatim>\<open>In\<close>, \<^verbatim>\<open>NotIn\<close>,
    \<^verbatim>\<open>Exists\<close> and \<^verbatim>\<open>DoesNotExist\<close>; any other operator is an error, as it is in
    \<^verbatim>\<open>metav1.LabelSelectorAsSelector\<close>;
  \<^item> the case mapping of ASCII in place of the Unicode tables; the example annotations
    are ASCII, so the model does not consult this part.
\<close>

fun toyMatch :: "string \<Rightarrow> string \<Rightarrow> bool" where
  "toyMatch [] [] = True"
| "toyMatch (p # ps) (c # cs) =
     (if p = CHR ''.'' then (if c = CHR 0x0A then False else toyMatch ps cs)
      else if p = c then toyMatch ps cs else False)"
| "toyMatch [] (c # cs) = False"
| "toyMatch (p # ps) [] = False"

definition toyPlain :: "char \<Rightarrow> bool" where
  "toyPlain c = (c \<in> set ''abcdefghijklmnopqrstuvwxyz0123456789-.'')"

definition toyMustCompile :: "string \<Rightarrow> (string \<Rightarrow> bool) option" where
  "toyMustCompile e =
     (case e of
        [] \<Rightarrow> None
      | c # cs \<Rightarrow>
          (if c = CHR ''^'' \<and> cs \<noteq> [] \<and> last cs = CHR ''$'' \<and> list_all toyPlain (butlast cs)
           then Some (toyMatch (butlast cs)) else None))"

definition toyOperators :: "string list" where
  "toyOperators = [''In'', ''NotIn'', ''Exists'', ''DoesNotExist'']"

definition toyExprMatches :: "labels \<Rightarrow> LabelSelectorRequirement \<Rightarrow> bool" where
  "toyExprMatches ls e =
     (if Operator e = ''In'' then (case ls (Key e) of None \<Rightarrow> False | Some v \<Rightarrow> v \<in> set (Values e))
      else if Operator e = ''NotIn''
        then (case ls (Key e) of None \<Rightarrow> True | Some v \<Rightarrow> v \<notin> set (Values e))
      else if Operator e = ''Exists'' then ls (Key e) \<noteq> None
      else ls (Key e) = None)"

definition toyLabelSelectorAsSelector :: "LabelSelector \<Rightarrow> string + (labels \<Rightarrow> bool)" where
  "toyLabelSelectorAsSelector sel =
     (case find (\<lambda>e. Operator e \<notin> set toyOperators) (MatchExpressions sel) of
        Some e \<Rightarrow>
          Inl ([CHR 0x22] @ Operator e @ [CHR 0x22] @ '' is not a valid label selector operator'')
      | None \<Rightarrow>
          Inr (\<lambda>ls. list_all (\<lambda>(k, v). ls k = Some v) (MatchLabels sel)
                     \<and> list_all (toyExprMatches ls) (MatchExpressions sel)))"

definition toyLib :: lib where
  "toyLib =
     \<lparr>MustCompile = toyMustCompile,
      LabelSelectorAsSelector = toyLabelSelectorAsSelector,
      ToLowerUnicode = map toLowerChar,
      EqualFoldUnicode = (\<lambda>s t. map toLowerChar s = map toLowerChar t)\<rparr>"

text \<open>A route, by its TLS configuration and its annotation; the host is fixed.\<close>

definition exRoute :: "TLSConfig option \<Rightarrow> string option \<Rightarrow> Route" where
  "exRoute tls annotation =
     \<lparr>Name = ''app'',
      Annotations = (\<lambda>k. if k = hstsAnnotation then annotation else None),
      Spec = \<lparr>Host = ''app.example.com'', TLS = tls\<rparr>,
      Status = \<lparr>Ingress = [\<lparr>IngressHost = ''app.apps.example.com''\<rparr>]\<rparr>\<rparr>"

definition exEdge :: "TLSConfig option" where
  "exEdge = Some \<lparr>Termination = ''edge''\<rparr>"

definition exNamespace :: Namespace where
  "exNamespace = \<lparr>Labels = [''env'' \<mapsto> ''prod'']\<rparr>"

text \<open>A requirement for the host of \<open>exRoute\<close>, by its bounds and policies.\<close>

definition exRequirement ::
  "int option \<Rightarrow> int option \<Rightarrow> PreloadPolicy \<Rightarrow> IncludeSubDomainsPolicy \<Rightarrow> RequiredHSTSPolicy" where
  "exRequirement smallest largest p i =
     \<lparr>NamespaceSelector = None,
      DomainPatterns = [''app.example.com''],
      MaxAge = \<lparr>LargestMaxAge = largest, SmallestMaxAge = smallest\<rparr>,
      PreloadPolicy = p,
      IncludeSubDomainsPolicy = i\<rparr>"

text \<open>A requirement for another host, which \<open>exRoute\<close> does not match.\<close>

definition exOtherHost :: RequiredHSTSPolicy where
  "exOtherHost =
     \<lparr>NamespaceSelector = None,
      DomainPatterns = [''www.example.org''],
      MaxAge = \<lparr>LargestMaxAge = None, SmallestMaxAge = None\<rparr>,
      PreloadPolicy = RequirePreloadPolicy,
      IncludeSubDomainsPolicy = RequireIncludeSubDomains\<rparr>"

text \<open>
  A requirement for another host whose namespace selector has an operator that does not
  exist.
\<close>

definition exBadSelector :: RequiredHSTSPolicy where
  "exBadSelector =
     \<lparr>NamespaceSelector =
        Some \<lparr>MatchLabels = [],
              MatchExpressions = [\<lparr>Key = ''env'', Operator = ''Is'', Values = [''prod'']\<rparr>]\<rparr>,
      DomainPatterns = [''www.example.org''],
      MaxAge = \<lparr>LargestMaxAge = None, SmallestMaxAge = None\<rparr>,
      PreloadPolicy = NoOpinionPreloadPolicy,
      IncludeSubDomainsPolicy = NoOpinionIncludeSubDomains\<rparr>"

text \<open>The message of the selector error of \<open>exBadSelector\<close>.\<close>

definition exSelectorMessage :: string where
  "exSelectorMessage =
     [CHR 0x22] @ ''Is'' @ [CHR 0x22] @ '' is not a valid label selector operator''"

text \<open>Two requirements that both match \<open>exRoute\<close>: a lenient one and a strict one.\<close>

definition exLenient :: RequiredHSTSPolicy where
  "exLenient = exRequirement (Some 100) (Some 200) NoOpinionPreloadPolicy NoOpinionIncludeSubDomains"

definition exStrict :: RequiredHSTSPolicy where
  "exStrict = exRequirement (Some 31536000) None RequirePreloadPolicy RequireIncludeSubDomains"

section \<open>Properties\<close>

subsection \<open>How the loop runs\<close>

lemma checkRequirements_append:
  "list_all (passesOver L route ns) pre \<Longrightarrow>
   checkRequirements L (pre @ rest) route ns = checkRequirements L rest route ns"
  by (induction pre) (auto simp: passesOver_def split: outcome.splits option.splits if_splits)

lemma checkRequirements_match:
  "matchesRoute L route ns r \<Longrightarrow>
   checkRequirements L (r # rest) route ns = Returns (verdict L route r)"
  by (auto simp: matchesRoute_def verdict_def split: prod.splits option.splits)

lemma checkRequirements_error:
  "requiredNamespaceDomainMatchesRoute L r route ns = Returns (a, b, Some err) \<Longrightarrow>
   checkRequirements L (r # rest) route ns = Returns (Some err)"
  by simp

lemma isRouteHSTSAllowed_loop:
  "terminatesTLS route \<Longrightarrow>
   isRouteHSTSAllowed L ingress route ns = checkRequirements L (RequiredHSTSPolicies ingress) route ns"
  by (auto simp: terminatesTLS_def isRouteHSTSAllowed_def split: option.splits if_splits)

lemma selector_invalid:
  "NamespaceSelector r = Some sel \<Longrightarrow> LabelSelectorAsSelector L sel = Inl m \<Longrightarrow>
   requiredNamespaceDomainMatchesRoute L r route ns = Returns (False, False, Some (SelectorError m))"
  by (simp add: requiredNamespaceDomainMatchesRoute_def matchesNamespaceSelector_def)

lemma rnd_error_kind:
  "requiredNamespaceDomainMatchesRoute L r route ns = Returns (a, b, Some err) \<Longrightarrow>
   \<exists>m. err = SelectorError m"
  by (auto simp: requiredNamespaceDomainMatchesRoute_def matchesNamespaceSelector_def
      split: option.splits sum.splits outcome.splits)

lemma meetsRequirements_kind: "meetsRequirements c r \<noteq> Some TerminationEmpty"
  by (auto simp: meetsRequirements_def checkLargest_def checkSmallest_def checkPreload_def
      checkIncludeSubDomains_def
      split: option.splits if_splits PreloadPolicy.splits IncludeSubDomainsPolicy.splits)

lemma hstsConfigFromRoute_kind: "snd (hstsConfigFromRoute L route) \<noteq> Some TerminationEmpty"
  by (auto simp: hstsConfigFromRoute_def ParseInt32_def Let_def split: option.splits sum.splits if_splits)

lemma verdict_kind: "verdict L route r \<noteq> Some TerminationEmpty"
  using hstsConfigFromRoute_kind[of L route] meetsRequirements_kind
  by (auto simp: verdict_def split: prod.splits option.splits)

lemma checkRequirements_kind:
  "checkRequirements L rs route ns \<noteq> Returns (Some TerminationEmpty)"
proof (induction rs)
  case Nil
  show ?case by simp
next
  case (Cons r rs)
  show ?case
  proof (cases "requiredNamespaceDomainMatchesRoute L r route ns")
    case Panics
    then show ?thesis by simp
  next
    case (Returns t)
    obtain a b e where t: "t = (a, b, e)" by (cases t)
    show ?thesis
    proof (cases e)
      case (Some err)
      with Returns t rnd_error_kind[of L r route ns a b err] show ?thesis by auto
    next
      case None
      show ?thesis
      proof (cases "a \<and> b")
        case True
        with Returns t None have "matchesRoute L route ns r" by (simp add: matchesRoute_def)
        from checkRequirements_match[OF this] verdict_kind show ?thesis by simp
      next
        case False
        with Returns t None Cons.IH show ?thesis by auto
      qed
    qed
  qed
qed

subsection \<open>The search for the age\<close>





subsection \<open>The example inputs, evaluated\<close>

lemma exRoute_terminates: "terminatesTLS (exRoute exEdge a)"
  by (simp add: terminatesTLS_def exRoute_def exEdge_def TLSTerminationEdge_def)

lemma ex_domains: "routeDomains (exRoute tls a) = [''app.example.com'', ''app.apps.example.com'']"
  by (simp add: routeDomains_def exRoute_def)


lemma toy_compile_www:
  "MustCompile toyLib ''^www.example.org$'' = Some (toyMatch ''www.example.org'')"
  by (simp add: toyLib_def toyMustCompile_def toyPlain_def)


lemma ex_other:
  "requiredNamespaceDomainMatchesRoute toyLib exOtherHost (exRoute tls a) exNamespace
     = Returns (True, False, None)"
  by (simp add: requiredNamespaceDomainMatchesRoute_def matchesNamespaceSelector_def
      exOtherHost_def ex_domains toy_compile_www)

lemma ex_bad_invalid:
  "LabelSelectorAsSelector toyLib
     \<lparr>MatchLabels = [], MatchExpressions = [\<lparr>Key = ''env'', Operator = ''Is'', Values = [''prod'']\<rparr>]\<rparr>
   = Inl exSelectorMessage"
  by (simp add: toyLib_def toyLabelSelectorAsSelector_def toyOperators_def exSelectorMessage_def)

lemma ex_bad:
  "requiredNamespaceDomainMatchesRoute toyLib exBadSelector (exRoute tls a) exNamespace
     = Returns (False, False, Some (SelectorError exSelectorMessage))"
  by (simp add: requiredNamespaceDomainMatchesRoute_def matchesNamespaceSelector_def
      exBadSelector_def ex_bad_invalid)

lemma ex_other_passed: "passesOver toyLib (exRoute tls a) exNamespace exOtherHost"
  by (simp add: passesOver_def ex_other)

lemmas parse_defs = hstsConfigFromRoute_def normalizeValue_def ToLower_def EqualFold_def
  isASCII_def toLowerChar_def removeSpaces_def isDigit_def ParseInt32_def decimalValue_def
  digitValue_def readToken_def Let_def

lemma ex_annotation: "annotationValue (exRoute tls (Some v)) = v"
  by (simp add: annotationValue_def exRoute_def)

lemma ex_parse_hyphen:
  "annotationValue route = ''max-age=3600; includeSubDomains; preload'' \<Longrightarrow>
   hstsConfigFromRoute L route
     = (Some \<lparr>maxAge = 3600, preload = True, includeSubDomains = True\<rparr>, None)"
  by (simp add: parse_defs)


lemma ex_parse_camel:
  "hstsConfigFromRoute L (exRoute tls (Some ''maxAge=3600; includeSubDomains; preload''))
     = (None, Some MaxAgeNotSet)"
  by (simp add: parse_defs ex_annotation)


subsection \<open>The TLS precondition\<close>

text \<open>
  Claim C2. A route with no TLS configuration is denied, whatever the requirements, the
  namespace and the annotation are, and the message of the error is
  "termination type is empty, must be edge or reencrypt".
\<close>

theorem C2_no_tls_denied:
  assumes "TLS (Spec route) = None"
  shows "isRouteHSTSAllowed L ingress route ns = Returns (Some TerminationEmpty)
         \<and> Error TerminationEmpty = ''termination type is empty, must be edge or reencrypt''"
  using assms
  by (simp add: isRouteHSTSAllowed_def TLSTerminationEdge_def TLSTerminationReencrypt_def)

text \<open>C2 on a route without TLS whose annotation would satisfy the requirement.\<close>

theorem C2_witness:
  "TLS (Spec (exRoute None (Some ''max-age=150''))) = None
   \<and> isRouteHSTSAllowed toyLib \<lparr>RequiredHSTSPolicies = [exLenient]\<rparr>
        (exRoute None (Some ''max-age=150'')) exNamespace = Returns (Some TerminationEmpty)"
proof -
  have h: "TLS (Spec (exRoute None (Some ''max-age=150''))) = None"
    by (simp add: exRoute_def)
  from h C2_no_tls_denied[OF h, of toyLib "\<lparr>RequiredHSTSPolicies = [exLenient]\<rparr>" exNamespace]
  show ?thesis by blast
qed

text \<open>
  Claim C3. A route whose TLS configuration is present with a termination that is neither
  edge nor reencrypt is allowed, for every list of requirements and every annotation: the
  loop, the parser and the validator are not reached.
\<close>

theorem C3_other_termination_allowed:
  assumes "TLS (Spec route) = Some tls"
    and "Termination tls \<noteq> TLSTerminationEdge"
    and "Termination tls \<noteq> TLSTerminationReencrypt"
  shows "isRouteHSTSAllowed L ingress route ns = Returns None"
  using assms by (simp add: isRouteHSTSAllowed_def)

text \<open>
  C3 on a passthrough route, with an annotation that has no age and requirements that
  would raise a selector error.
\<close>

theorem C3_witness:
  "TLS (Spec (exRoute (Some \<lparr>Termination = ''passthrough''\<rparr>) (Some ''preload'')))
     = Some \<lparr>Termination = ''passthrough''\<rparr>
   \<and> Termination \<lparr>Termination = ''passthrough''\<rparr> \<noteq> TLSTerminationEdge
   \<and> Termination \<lparr>Termination = ''passthrough''\<rparr> \<noteq> TLSTerminationReencrypt
   \<and> isRouteHSTSAllowed toyLib \<lparr>RequiredHSTSPolicies = [exBadSelector, exStrict]\<rparr>
        (exRoute (Some \<lparr>Termination = ''passthrough''\<rparr>) (Some ''preload'')) exNamespace
       = Returns None"
proof -
  have h1: "TLS (Spec (exRoute (Some \<lparr>Termination = ''passthrough''\<rparr>) (Some ''preload'')))
     = Some \<lparr>Termination = ''passthrough''\<rparr>"
    by (simp add: exRoute_def)
  have h2: "Termination \<lparr>Termination = ''passthrough''\<rparr> \<noteq> TLSTerminationEdge"
    by (simp add: TLSTerminationEdge_def)
  have h3: "Termination \<lparr>Termination = ''passthrough''\<rparr> \<noteq> TLSTerminationReencrypt"
    by (simp add: TLSTerminationReencrypt_def)
  from h1 h2 h3
    C3_other_termination_allowed[OF h1 h2 h3, of toyLib
      "\<lparr>RequiredHSTSPolicies = [exBadSelector, exStrict]\<rparr>" exNamespace]
  show ?thesis by blast
qed

text \<open>
  Claim C10. A route whose TLS configuration is present with the empty string as its
  termination is allowed, and the evaluator returns the error "termination type is empty"
  exactly when the TLS configuration is absent.
\<close>

theorem C10_empty_termination_allowed:
  "(TLS (Spec route) = Some tls \<and> Termination tls = [] \<longrightarrow>
      isRouteHSTSAllowed L ingress route ns = Returns None)
   \<and> (isRouteHSTSAllowed L ingress route ns = Returns (Some TerminationEmpty)
        \<longleftrightarrow> TLS (Spec route) = None)"
proof (intro conjI impI)
  assume "TLS (Spec route) = Some tls \<and> Termination tls = []"
  then show "isRouteHSTSAllowed L ingress route ns = Returns None"
    by (simp add: isRouteHSTSAllowed_def TLSTerminationEdge_def TLSTerminationReencrypt_def)
next
  show "isRouteHSTSAllowed L ingress route ns = Returns (Some TerminationEmpty)
        \<longleftrightarrow> TLS (Spec route) = None"
    using checkRequirements_kind[of L "RequiredHSTSPolicies ingress" route ns]
    by (auto simp: isRouteHSTSAllowed_def split: option.splits)
qed

text \<open>C10 on a route with an empty termination and no annotation.\<close>

theorem C10_witness:
  "TLS (Spec (exRoute (Some \<lparr>Termination = []\<rparr>) None)) = Some \<lparr>Termination = []\<rparr>
   \<and> Termination \<lparr>Termination = []\<rparr> = []
   \<and> isRouteHSTSAllowed toyLib \<lparr>RequiredHSTSPolicies = [exStrict]\<rparr>
        (exRoute (Some \<lparr>Termination = []\<rparr>) None) exNamespace = Returns None"
proof -
  have h: "TLS (Spec (exRoute (Some \<lparr>Termination = []\<rparr>) None)) = Some \<lparr>Termination = []\<rparr>
           \<and> Termination \<lparr>Termination = []\<rparr> = []"
    by (simp add: exRoute_def)
  from h C10_empty_termination_allowed[of "exRoute (Some \<lparr>Termination = []\<rparr>) None"
      "\<lparr>Termination = []\<rparr>" toyLib "\<lparr>RequiredHSTSPolicies = [exStrict]\<rparr>" exNamespace]
  show ?thesis by blast
qed

subsection \<open>The validator\<close>

lemma checkLargest_off: "boundOff (LargestMaxAge (MaxAge r)) \<Longrightarrow> checkLargest c r = None"
  by (simp add: checkLargest_def boundOff_def split: option.splits)

lemma checkSmallest_off: "boundOff (SmallestMaxAge (MaxAge r)) \<Longrightarrow> checkSmallest c r = None"
  by (simp add: checkSmallest_def boundOff_def split: option.splits)

lemma checkLargest_unbounded: "checkLargest c (unbounded r) = None"
  by (simp add: checkLargest_def unbounded_def)

lemma checkSmallest_unbounded: "checkSmallest c (unbounded r) = None"
  by (simp add: checkSmallest_def unbounded_def)

lemma checkPreload_unbounded: "checkPreload c (unbounded r) = checkPreload c r"
  by (simp add: checkPreload_def unbounded_def)

lemma checkIncludeSubDomains_unbounded:
  "checkIncludeSubDomains c (unbounded r) = checkIncludeSubDomains c r"
  by (simp add: checkIncludeSubDomains_def unbounded_def)

lemma checkPreload_maxAge: "checkPreload (c\<lparr>maxAge := a\<rparr>) r = checkPreload c r"
  by (simp add: checkPreload_def)

lemma checkIncludeSubDomains_maxAge:
  "checkIncludeSubDomains (c\<lparr>maxAge := a\<rparr>) r = checkIncludeSubDomains c r"
  by (simp add: checkIncludeSubDomains_def)

lemma meetsRequirements_within:
  "checkLargest c r = None \<Longrightarrow> checkSmallest c r = None \<Longrightarrow>
   meetsRequirements c r = meetsRequirements c (unbounded r)"
  by (simp add: meetsRequirements_def checkLargest_unbounded checkSmallest_unbounded
      checkPreload_unbounded checkIncludeSubDomains_unbounded split: option.splits)

lemma meetsRequirements_too_large:
  "checkLargest c r = Some e \<Longrightarrow> meetsRequirements c r = Some e"
  by (simp add: meetsRequirements_def)

lemma meetsRequirements_too_small:
  "checkLargest c r = None \<Longrightarrow> checkSmallest c r = Some e \<Longrightarrow> meetsRequirements c r = Some e"
  by (simp add: meetsRequirements_def)

lemma meetsRequirements_no_opinion:
  "PreloadPolicy r = NoOpinionPreloadPolicy \<Longrightarrow>
   IncludeSubDomainsPolicy r = NoOpinionIncludeSubDomains \<Longrightarrow>
   meetsRequirements c (unbounded r) = None"
  by (simp add: meetsRequirements_def checkLargest_def checkSmallest_def checkPreload_def
      checkIncludeSubDomains_def unbounded_def)

lemma meetsRequirements_not_too_large:
  "checkLargest c r = None \<Longrightarrow> meetsRequirements c r \<noteq> Some (MaxAgeTooLarge n)"
  by (auto simp: meetsRequirements_def checkSmallest_def checkPreload_def checkIncludeSubDomains_def
      split: option.splits if_splits PreloadPolicy.splits IncludeSubDomainsPolicy.splits)

lemma meetsRequirements_not_too_small:
  "checkSmallest c r = None \<Longrightarrow> meetsRequirements c r \<noteq> Some (MaxAgeTooSmall n)"
  by (auto simp: meetsRequirements_def checkLargest_def checkPreload_def checkIncludeSubDomains_def
      split: option.splits if_splits PreloadPolicy.splits IncludeSubDomainsPolicy.splits)

text \<open>
  Claim C7. The bounds on the age are inclusive. For every requirement whose smallest age
  is 100 and whose largest age is 200: a configuration with age 100 or 200 passes both
  checks on the age (the validator returns what it returns for the requirement without
  its bounds, which is no error when both policies have no opinion); age 99 fails with
  the error of the minimum, 100; age 201 fails with the error of the maximum, 200. A bound
  that is unset or negative imposes nothing: the error of that bound is never returned,
  and with both bounds off the validator returns what it returns without bounds.
\<close>

theorem C7_inclusive_bounds:
  assumes small: "SmallestMaxAge (MaxAge r) = Some 100"
    and large: "LargestMaxAge (MaxAge r) = Some 200"
  shows "meetsRequirements (c\<lparr>maxAge := 100\<rparr>) r = meetsRequirements (c\<lparr>maxAge := 100\<rparr>) (unbounded r)
       \<and> meetsRequirements (c\<lparr>maxAge := 99\<rparr>) r = Some (MaxAgeTooSmall 100)
       \<and> meetsRequirements (c\<lparr>maxAge := 200\<rparr>) r = meetsRequirements (c\<lparr>maxAge := 200\<rparr>) (unbounded r)
       \<and> meetsRequirements (c\<lparr>maxAge := 201\<rparr>) r = Some (MaxAgeTooLarge 200)
       \<and> (PreloadPolicy r = NoOpinionPreloadPolicy
            \<and> IncludeSubDomainsPolicy r = NoOpinionIncludeSubDomains \<longrightarrow>
          meetsRequirements (c\<lparr>maxAge := 100\<rparr>) r = None
          \<and> meetsRequirements (c\<lparr>maxAge := 200\<rparr>) r = None)
       \<and> (boundOff (LargestMaxAge (MaxAge q)) \<longrightarrow>
            (\<forall>n. meetsRequirements d q \<noteq> Some (MaxAgeTooLarge n)))
       \<and> (boundOff (SmallestMaxAge (MaxAge q)) \<longrightarrow>
            (\<forall>n. meetsRequirements d q \<noteq> Some (MaxAgeTooSmall n)))
       \<and> (boundOff (LargestMaxAge (MaxAge q)) \<and> boundOff (SmallestMaxAge (MaxAge q)) \<longrightarrow>
            meetsRequirements d q = meetsRequirements d (unbounded q))"
proof -
  have l100: "checkLargest (c\<lparr>maxAge := 100\<rparr>) r = None"
    and s100: "checkSmallest (c\<lparr>maxAge := 100\<rparr>) r = None"
    and l200: "checkLargest (c\<lparr>maxAge := 200\<rparr>) r = None"
    and s200: "checkSmallest (c\<lparr>maxAge := 200\<rparr>) r = None"
    and l99: "checkLargest (c\<lparr>maxAge := 99\<rparr>) r = None"
    and s99: "checkSmallest (c\<lparr>maxAge := 99\<rparr>) r = Some (MaxAgeTooSmall 100)"
    and l201: "checkLargest (c\<lparr>maxAge := 201\<rparr>) r = Some (MaxAgeTooLarge 200)"
    using small large by (simp_all add: checkLargest_def checkSmallest_def)
  have a: "meetsRequirements (c\<lparr>maxAge := 100\<rparr>) r
           = meetsRequirements (c\<lparr>maxAge := 100\<rparr>) (unbounded r)"
    by (rule meetsRequirements_within[OF l100 s100])
  have b: "meetsRequirements (c\<lparr>maxAge := 99\<rparr>) r = Some (MaxAgeTooSmall 100)"
    by (rule meetsRequirements_too_small[OF l99 s99])
  have c: "meetsRequirements (c\<lparr>maxAge := 200\<rparr>) r
           = meetsRequirements (c\<lparr>maxAge := 200\<rparr>) (unbounded r)"
    by (rule meetsRequirements_within[OF l200 s200])
  have d: "meetsRequirements (c\<lparr>maxAge := 201\<rparr>) r = Some (MaxAgeTooLarge 200)"
    by (rule meetsRequirements_too_large[OF l201])
  have e: "PreloadPolicy r = NoOpinionPreloadPolicy
            \<and> IncludeSubDomainsPolicy r = NoOpinionIncludeSubDomains \<longrightarrow>
          meetsRequirements (c\<lparr>maxAge := 100\<rparr>) r = None
          \<and> meetsRequirements (c\<lparr>maxAge := 200\<rparr>) r = None"
    using a c meetsRequirements_no_opinion[of r] by simp
  have f: "boundOff (LargestMaxAge (MaxAge q)) \<longrightarrow>
            (\<forall>n. meetsRequirements d q \<noteq> Some (MaxAgeTooLarge n))"
    using checkLargest_off[of q d] meetsRequirements_not_too_large[of d q] by blast
  have g: "boundOff (SmallestMaxAge (MaxAge q)) \<longrightarrow>
            (\<forall>n. meetsRequirements d q \<noteq> Some (MaxAgeTooSmall n))"
    using checkSmallest_off[of q d] meetsRequirements_not_too_small[of d q] by blast
  have h: "boundOff (LargestMaxAge (MaxAge q)) \<and> boundOff (SmallestMaxAge (MaxAge q)) \<longrightarrow>
            meetsRequirements d q = meetsRequirements d (unbounded q)"
    using checkLargest_off[of q d] checkSmallest_off[of q d] meetsRequirements_within[of d q]
    by blast
  from a b c d e f g h show ?thesis by blast
qed

text \<open>C7 on the requirement \<open>exLenient\<close>, and on a requirement with a negative maximum.\<close>

theorem C7_witness:
  "SmallestMaxAge (MaxAge exLenient) = Some 100
   \<and> LargestMaxAge (MaxAge exLenient) = Some 200
   \<and> PreloadPolicy exLenient = NoOpinionPreloadPolicy
   \<and> IncludeSubDomainsPolicy exLenient = NoOpinionIncludeSubDomains
   \<and> boundOff (LargestMaxAge (MaxAge (exRequirement None (Some (- 1)) RequirePreloadPolicy NoOpinionIncludeSubDomains)))
   \<and> boundOff (SmallestMaxAge (MaxAge (exRequirement None (Some (- 1)) RequirePreloadPolicy NoOpinionIncludeSubDomains)))
   \<and> meetsRequirements (\<lparr>maxAge = 0, preload = False, includeSubDomains = False\<rparr>\<lparr>maxAge := 100\<rparr>) exLenient = None
   \<and> meetsRequirements (\<lparr>maxAge = 0, preload = False, includeSubDomains = False\<rparr>\<lparr>maxAge := 99\<rparr>) exLenient
       = Some (MaxAgeTooSmall 100)
   \<and> meetsRequirements (\<lparr>maxAge = 0, preload = False, includeSubDomains = False\<rparr>\<lparr>maxAge := 200\<rparr>) exLenient = None
   \<and> meetsRequirements (\<lparr>maxAge = 0, preload = False, includeSubDomains = False\<rparr>\<lparr>maxAge := 201\<rparr>) exLenient
       = Some (MaxAgeTooLarge 200)
   \<and> meetsRequirements \<lparr>maxAge = 5, preload = True, includeSubDomains = False\<rparr>
        (exRequirement None (Some (- 1)) RequirePreloadPolicy NoOpinionIncludeSubDomains)
       = meetsRequirements \<lparr>maxAge = 5, preload = True, includeSubDomains = False\<rparr>
        (unbounded (exRequirement None (Some (- 1)) RequirePreloadPolicy NoOpinionIncludeSubDomains))"
proof -
  have h: "SmallestMaxAge (MaxAge exLenient) = Some 100"
    "LargestMaxAge (MaxAge exLenient) = Some 200"
    by (simp_all add: exLenient_def exRequirement_def)
  have p: "PreloadPolicy exLenient = NoOpinionPreloadPolicy"
    "IncludeSubDomainsPolicy exLenient = NoOpinionIncludeSubDomains"
    by (simp_all add: exLenient_def exRequirement_def)
  have q: "boundOff (LargestMaxAge (MaxAge (exRequirement None (Some (- 1)) RequirePreloadPolicy NoOpinionIncludeSubDomains)))"
    "boundOff (SmallestMaxAge (MaxAge (exRequirement None (Some (- 1)) RequirePreloadPolicy NoOpinionIncludeSubDomains)))"
    by (simp_all add: exRequirement_def boundOff_def)
  from h p q
    C7_inclusive_bounds[OF h, of "\<lparr>maxAge = 0, preload = False, includeSubDomains = False\<rparr>"
      "exRequirement None (Some (- 1)) RequirePreloadPolicy NoOpinionIncludeSubDomains"
      "\<lparr>maxAge = 5, preload = True, includeSubDomains = False\<rparr>"]
  show ?thesis by blast
qed

lemma checks_preload:
  "checkLargest (c\<lparr>preload := b\<rparr>) r = checkLargest c r"
  "checkSmallest (c\<lparr>preload := b\<rparr>) r = checkSmallest c r"
  "checkIncludeSubDomains (c\<lparr>preload := b\<rparr>) r = checkIncludeSubDomains c r"
  "PreloadPolicy r = NoOpinionPreloadPolicy \<Longrightarrow> checkPreload c' r = None"
  by (simp_all add: checkLargest_def checkSmallest_def checkIncludeSubDomains_def checkPreload_def
      split: option.splits)

lemma checks_includeSubDomains:
  "checkLargest (c\<lparr>includeSubDomains := b\<rparr>) r = checkLargest c r"
  "checkSmallest (c\<lparr>includeSubDomains := b\<rparr>) r = checkSmallest c r"
  "checkPreload (c\<lparr>includeSubDomains := b\<rparr>) r = checkPreload c r"
  "IncludeSubDomainsPolicy r = NoOpinionIncludeSubDomains \<Longrightarrow> checkIncludeSubDomains c' r = None"
  by (simp_all add: checkLargest_def checkSmallest_def checkIncludeSubDomains_def checkPreload_def
      split: option.splits)

text \<open>
  Claim C8. The two policies have three values each. When preload is required and the
  configuration has no preload, validation fails (with "preload must be specified" once
  the bounds are out of the way); when preload is forbidden and the configuration has
  it, validation fails likewise; with no opinion the result does not depend on the
  preload of the configuration. The policy on includeSubDomains constrains
  includeSubDomains in the same three ways.
\<close>

theorem C8_three_way_policies:
  "(PreloadPolicy r = RequirePreloadPolicy \<and> \<not> preload c \<longrightarrow>
      meetsRequirements c r \<noteq> None
      \<and> meetsRequirements c (unbounded r) = Some PreloadRequired)
   \<and> (PreloadPolicy r = RequireNoPreloadPolicy \<and> preload c \<longrightarrow>
      meetsRequirements c r \<noteq> None
      \<and> meetsRequirements c (unbounded r) = Some PreloadForbidden)
   \<and> (PreloadPolicy r = NoOpinionPreloadPolicy \<longrightarrow>
      meetsRequirements (c\<lparr>preload := b\<rparr>) r = meetsRequirements c r)
   \<and> (IncludeSubDomainsPolicy r = RequireIncludeSubDomains \<and> \<not> includeSubDomains c \<longrightarrow>
      meetsRequirements c r \<noteq> None
      \<and> meetsRequirements c (unbounded r\<lparr>PreloadPolicy := NoOpinionPreloadPolicy\<rparr>)
          = Some IncludeSubDomainsRequired)
   \<and> (IncludeSubDomainsPolicy r = RequireNoIncludeSubDomains \<and> includeSubDomains c \<longrightarrow>
      meetsRequirements c r \<noteq> None
      \<and> meetsRequirements c (unbounded r\<lparr>PreloadPolicy := NoOpinionPreloadPolicy\<rparr>)
          = Some IncludeSubDomainsForbidden)
   \<and> (IncludeSubDomainsPolicy r = NoOpinionIncludeSubDomains \<longrightarrow>
      meetsRequirements (c\<lparr>includeSubDomains := b\<rparr>) r = meetsRequirements c r)"
proof (intro conjI impI)
  assume a: "PreloadPolicy r = RequirePreloadPolicy \<and> \<not> preload c"
  then have p: "checkPreload c r = Some PreloadRequired" by (simp add: checkPreload_def)
  then show "meetsRequirements c r \<noteq> None"
    by (simp add: meetsRequirements_def split: option.splits)
  from p show "meetsRequirements c (unbounded r) = Some PreloadRequired"
    by (simp add: meetsRequirements_def checkLargest_unbounded checkSmallest_unbounded
        checkPreload_unbounded)
next
  assume a: "PreloadPolicy r = RequireNoPreloadPolicy \<and> preload c"
  then have p: "checkPreload c r = Some PreloadForbidden" by (simp add: checkPreload_def)
  then show "meetsRequirements c r \<noteq> None"
    by (simp add: meetsRequirements_def split: option.splits)
  from p show "meetsRequirements c (unbounded r) = Some PreloadForbidden"
    by (simp add: meetsRequirements_def checkLargest_unbounded checkSmallest_unbounded
        checkPreload_unbounded)
next
  assume "PreloadPolicy r = NoOpinionPreloadPolicy"
  then show "meetsRequirements (c\<lparr>preload := b\<rparr>) r = meetsRequirements c r"
    by (simp add: meetsRequirements_def checks_preload cong: option.case_cong)
next
  assume a: "IncludeSubDomainsPolicy r = RequireIncludeSubDomains \<and> \<not> includeSubDomains c"
  then have p: "checkIncludeSubDomains c r = Some IncludeSubDomainsRequired"
    by (simp add: checkIncludeSubDomains_def)
  then show "meetsRequirements c r \<noteq> None"
    by (simp add: meetsRequirements_def split: option.splits)
  from a show "meetsRequirements c (unbounded r\<lparr>PreloadPolicy := NoOpinionPreloadPolicy\<rparr>)
          = Some IncludeSubDomainsRequired"
    by (simp add: meetsRequirements_def checkLargest_def checkSmallest_def checkPreload_def
        checkIncludeSubDomains_def unbounded_def)
next
  assume a: "IncludeSubDomainsPolicy r = RequireNoIncludeSubDomains \<and> includeSubDomains c"
  then have p: "checkIncludeSubDomains c r = Some IncludeSubDomainsForbidden"
    by (simp add: checkIncludeSubDomains_def)
  then show "meetsRequirements c r \<noteq> None"
    by (simp add: meetsRequirements_def split: option.splits)
  from a show "meetsRequirements c (unbounded r\<lparr>PreloadPolicy := NoOpinionPreloadPolicy\<rparr>)
          = Some IncludeSubDomainsForbidden"
    by (simp add: meetsRequirements_def checkLargest_def checkSmallest_def checkPreload_def
        checkIncludeSubDomains_def unbounded_def)
next
  assume "IncludeSubDomainsPolicy r = NoOpinionIncludeSubDomains"
  then show "meetsRequirements (c\<lparr>includeSubDomains := b\<rparr>) r = meetsRequirements c r"
    by (simp add: meetsRequirements_def checks_includeSubDomains cong: option.case_cong)
qed

text \<open>C8 on a strict requirement, on one that forbids both fields, and on a lenient one.\<close>

theorem C8_witness:
  "PreloadPolicy exStrict = RequirePreloadPolicy
   \<and> \<not> preload \<lparr>maxAge = 31536000, preload = False, includeSubDomains = False\<rparr>
   \<and> meetsRequirements \<lparr>maxAge = 31536000, preload = False, includeSubDomains = False\<rparr> exStrict
        \<noteq> None
   \<and> meetsRequirements \<lparr>maxAge = 31536000, preload = False, includeSubDomains = False\<rparr>
        (unbounded exStrict) = Some PreloadRequired
   \<and> IncludeSubDomainsPolicy exStrict = RequireIncludeSubDomains
   \<and> \<not> includeSubDomains \<lparr>maxAge = 31536000, preload = False, includeSubDomains = False\<rparr>
   \<and> meetsRequirements \<lparr>maxAge = 31536000, preload = False, includeSubDomains = False\<rparr>
        (unbounded exStrict\<lparr>PreloadPolicy := NoOpinionPreloadPolicy\<rparr>)
        = Some IncludeSubDomainsRequired
   \<and> PreloadPolicy (exRequirement None None RequireNoPreloadPolicy RequireNoIncludeSubDomains)
        = RequireNoPreloadPolicy
   \<and> preload \<lparr>maxAge = 0, preload = True, includeSubDomains = True\<rparr>
   \<and> meetsRequirements \<lparr>maxAge = 0, preload = True, includeSubDomains = True\<rparr>
        (exRequirement None None RequireNoPreloadPolicy RequireNoIncludeSubDomains) \<noteq> None
   \<and> IncludeSubDomainsPolicy (exRequirement None None RequireNoPreloadPolicy RequireNoIncludeSubDomains)
        = RequireNoIncludeSubDomains
   \<and> includeSubDomains \<lparr>maxAge = 0, preload = True, includeSubDomains = True\<rparr>
   \<and> meetsRequirements \<lparr>maxAge = 0, preload = True, includeSubDomains = True\<rparr>
        (unbounded (exRequirement None None RequireNoPreloadPolicy RequireNoIncludeSubDomains)
           \<lparr>PreloadPolicy := NoOpinionPreloadPolicy\<rparr>)
        = Some IncludeSubDomainsForbidden
   \<and> PreloadPolicy exLenient = NoOpinionPreloadPolicy
   \<and> IncludeSubDomainsPolicy exLenient = NoOpinionIncludeSubDomains
   \<and> meetsRequirements (\<lparr>maxAge = 150, preload = False, includeSubDomains = False\<rparr>\<lparr>preload := True\<rparr>)
        exLenient
        = meetsRequirements \<lparr>maxAge = 150, preload = False, includeSubDomains = False\<rparr> exLenient
   \<and> meetsRequirements
        (\<lparr>maxAge = 150, preload = False, includeSubDomains = False\<rparr>\<lparr>includeSubDomains := True\<rparr>)
        exLenient
        = meetsRequirements \<lparr>maxAge = 150, preload = False, includeSubDomains = False\<rparr> exLenient"
proof -
  have s: "PreloadPolicy exStrict = RequirePreloadPolicy"
    "IncludeSubDomainsPolicy exStrict = RequireIncludeSubDomains"
    "\<not> preload \<lparr>maxAge = 31536000, preload = False, includeSubDomains = False\<rparr>"
    "\<not> includeSubDomains \<lparr>maxAge = 31536000, preload = False, includeSubDomains = False\<rparr>"
    by (simp_all add: exStrict_def exRequirement_def)
  have n: "PreloadPolicy (exRequirement None None RequireNoPreloadPolicy RequireNoIncludeSubDomains)
        = RequireNoPreloadPolicy"
    "IncludeSubDomainsPolicy (exRequirement None None RequireNoPreloadPolicy RequireNoIncludeSubDomains)
        = RequireNoIncludeSubDomains"
    "preload \<lparr>maxAge = 0, preload = True, includeSubDomains = True\<rparr>"
    "includeSubDomains \<lparr>maxAge = 0, preload = True, includeSubDomains = True\<rparr>"
    by (simp_all add: exRequirement_def)
  have l: "PreloadPolicy exLenient = NoOpinionPreloadPolicy"
    "IncludeSubDomainsPolicy exLenient = NoOpinionIncludeSubDomains"
    by (simp_all add: exLenient_def exRequirement_def)
  note t1 = C8_three_way_policies[of exStrict
      "\<lparr>maxAge = 31536000, preload = False, includeSubDomains = False\<rparr>"]
  note t2 = C8_three_way_policies[of
      "exRequirement None None RequireNoPreloadPolicy RequireNoIncludeSubDomains"
      "\<lparr>maxAge = 0, preload = True, includeSubDomains = True\<rparr>"]
  note t3 = C8_three_way_policies[of exLenient
      "\<lparr>maxAge = 150, preload = False, includeSubDomains = False\<rparr>" True]
  have a1: "meetsRequirements \<lparr>maxAge = 31536000, preload = False, includeSubDomains = False\<rparr> exStrict
        \<noteq> None
   \<and> meetsRequirements \<lparr>maxAge = 31536000, preload = False, includeSubDomains = False\<rparr>
        (unbounded exStrict) = Some PreloadRequired"
    using t1 s(1) s(3) by blast
  have a2: "meetsRequirements \<lparr>maxAge = 31536000, preload = False, includeSubDomains = False\<rparr>
        (unbounded exStrict\<lparr>PreloadPolicy := NoOpinionPreloadPolicy\<rparr>)
        = Some IncludeSubDomainsRequired"
    using t1 s(2) s(4) by blast
  have b1: "meetsRequirements \<lparr>maxAge = 0, preload = True, includeSubDomains = True\<rparr>
        (exRequirement None None RequireNoPreloadPolicy RequireNoIncludeSubDomains) \<noteq> None"
    using t2 n(1) n(3) by blast
  have b2: "meetsRequirements \<lparr>maxAge = 0, preload = True, includeSubDomains = True\<rparr>
        (unbounded (exRequirement None None RequireNoPreloadPolicy RequireNoIncludeSubDomains)
           \<lparr>PreloadPolicy := NoOpinionPreloadPolicy\<rparr>)
        = Some IncludeSubDomainsForbidden"
    using t2 n(2) n(4) by blast
  have c1: "meetsRequirements (\<lparr>maxAge = 150, preload = False, includeSubDomains = False\<rparr>\<lparr>preload := True\<rparr>)
        exLenient
        = meetsRequirements \<lparr>maxAge = 150, preload = False, includeSubDomains = False\<rparr> exLenient"
    using t3 l(1) by blast
  have c2: "meetsRequirements
        (\<lparr>maxAge = 150, preload = False, includeSubDomains = False\<rparr>\<lparr>includeSubDomains := True\<rparr>)
        exLenient
        = meetsRequirements \<lparr>maxAge = 150, preload = False, includeSubDomains = False\<rparr> exLenient"
    using t3 l(2) by blast
  show ?thesis
    using s n l a1 a2 b1 b2 c1 c2 by (intro conjI) (erule conjunct1 conjunct2 | assumption)+
qed

subsection \<open>Errors of the namespace selector\<close>

text \<open>
  Claim C9. When the loop reaches a requirement whose namespace selector is invalid
  (the requirements before it were passed over), the evaluator returns the error of the
  selector: the requirement is not passed over as one that does not match, and the
  result is the same whatever requirements come after it.
\<close>

theorem C9_selector_error_propagated:
  assumes "terminatesTLS route"
    and "RequiredHSTSPolicies ingress = pre @ r # post"
    and "list_all (passesOver L route ns) pre"
    and "NamespaceSelector r = Some sel"
    and "LabelSelectorAsSelector L sel = Inl m"
  shows "isRouteHSTSAllowed L ingress route ns = Returns (Some (SelectorError m))
         \<and> \<not> passesOver L route ns r
         \<and> isRouteHSTSAllowed L \<lparr>RequiredHSTSPolicies = pre @ r # others\<rparr> route ns
             = Returns (Some (SelectorError m))"
proof -
  have err: "requiredNamespaceDomainMatchesRoute L r route ns
             = Returns (False, False, Some (SelectorError m))"
    by (rule selector_invalid[OF assms(4) assms(5)])
  have loop: "checkRequirements L (pre @ r # rest) route ns = Returns (Some (SelectorError m))"
    for rest
    using checkRequirements_append[OF assms(3)] checkRequirements_error[OF err] by simp
  have a: "isRouteHSTSAllowed L ingress route ns = Returns (Some (SelectorError m))"
    using isRouteHSTSAllowed_loop[OF assms(1)] assms(2) loop by simp
  have b: "\<not> passesOver L route ns r"
    using err by (simp add: passesOver_def)
  have c: "isRouteHSTSAllowed L \<lparr>RequiredHSTSPolicies = pre @ r # others\<rparr> route ns
             = Returns (Some (SelectorError m))"
    using isRouteHSTSAllowed_loop[OF assms(1)] loop by simp
  from a b c show ?thesis by blast
qed

text \<open>
  C9 on three requirements: one for another host, one with an invalid selector, and one
  that the route would satisfy.
\<close>

theorem C9_witness:
  "terminatesTLS (exRoute exEdge (Some ''max-age=150''))
   \<and> RequiredHSTSPolicies \<lparr>RequiredHSTSPolicies = [exOtherHost, exBadSelector, exLenient]\<rparr>
       = [exOtherHost] @ exBadSelector # [exLenient]
   \<and> list_all (passesOver toyLib (exRoute exEdge (Some ''max-age=150'')) exNamespace) [exOtherHost]
   \<and> NamespaceSelector exBadSelector
       = Some \<lparr>MatchLabels = [],
               MatchExpressions = [\<lparr>Key = ''env'', Operator = ''Is'', Values = [''prod'']\<rparr>]\<rparr>
   \<and> LabelSelectorAsSelector toyLib
        \<lparr>MatchLabels = [],
         MatchExpressions = [\<lparr>Key = ''env'', Operator = ''Is'', Values = [''prod'']\<rparr>]\<rparr>
       = Inl exSelectorMessage
   \<and> isRouteHSTSAllowed toyLib \<lparr>RequiredHSTSPolicies = [exOtherHost, exBadSelector, exLenient]\<rparr>
        (exRoute exEdge (Some ''max-age=150'')) exNamespace
       = Returns (Some (SelectorError exSelectorMessage))"
proof -
  have h1: "terminatesTLS (exRoute exEdge (Some ''max-age=150''))"
    by (rule exRoute_terminates)
  have h2: "RequiredHSTSPolicies \<lparr>RequiredHSTSPolicies = [exOtherHost, exBadSelector, exLenient]\<rparr>
       = [exOtherHost] @ exBadSelector # [exLenient]"
    by simp
  have h3: "list_all (passesOver toyLib (exRoute exEdge (Some ''max-age=150'')) exNamespace)
             [exOtherHost]"
    by (simp add: ex_other_passed)
  have h4: "NamespaceSelector exBadSelector
       = Some \<lparr>MatchLabels = [],
               MatchExpressions = [\<lparr>Key = ''env'', Operator = ''Is'', Values = [''prod'']\<rparr>]\<rparr>"
    by (simp add: exBadSelector_def)
  note h5 = ex_bad_invalid
  from C9_selector_error_propagated[OF h1 h2 h3 h4 h5]
  have c: "isRouteHSTSAllowed toyLib \<lparr>RequiredHSTSPolicies = [exOtherHost, exBadSelector, exLenient]\<rparr>
        (exRoute exEdge (Some ''max-age=150'')) exNamespace
       = Returns (Some (SelectorError exSelectorMessage))"
    by (rule conjunct1)
  from h1 h2 h3 h4 h5 c show ?thesis by (intro conjI)
qed

subsection \<open>Selecting the requirement\<close>

lemma passesOver_iff:
  "passesOver L route ns q \<longleftrightarrow>
     (\<exists>nsm dm.
        matchesNamespaceSelector L (NamespaceSelector q) ns = (nsm, None)
        \<and> matchesDomain L (DomainPatterns q)
             (Host (Spec route) # map IngressHost (Ingress (Status route))) = Returns dm
        \<and> \<not> (nsm \<and> dm))"
proof (cases "matchesNamespaceSelector L (NamespaceSelector q) ns")
  case (Pair nsm e)
  show ?thesis
  proof (cases e)
    case (Some err)
    with Pair show ?thesis
      by (simp add: passesOver_def requiredNamespaceDomainMatchesRoute_def)
  next
    case None
    show ?thesis
    proof (cases "matchesDomain L (DomainPatterns q)
             (Host (Spec route) # map IngressHost (Ingress (Status route)))")
      case Panics
      with Pair None show ?thesis
        by (simp add: passesOver_def requiredNamespaceDomainMatchesRoute_def routeDomains_def)
    next
      case (Returns dm)
      with Pair None show ?thesis
        by (simp add: passesOver_def requiredNamespaceDomainMatchesRoute_def routeDomains_def)
    qed
  qed
qed

text \<open>
  Claim C4 says that a route is allowed when no requirement has both its namespace
  selector and its domain patterns matching the route. That fails where a requirement
  has an invalid namespace selector: with \<open>exBadSelector\<close> as the only requirement,
  neither result is true (the domain patterns do not match the route either), and the
  evaluator returns the error of the selector.
\<close>

theorem C4_counterexample:
  "terminatesTLS (exRoute exEdge (Some ''max-age=150''))
   \<and> requiredNamespaceDomainMatchesRoute toyLib exBadSelector
        (exRoute exEdge (Some ''max-age=150'')) exNamespace
       = Returns (False, False, Some (SelectorError exSelectorMessage))
   \<and> matchesDomain toyLib (DomainPatterns exBadSelector)
        (routeDomains (exRoute exEdge (Some ''max-age=150''))) = Returns False
   \<and> isRouteHSTSAllowed toyLib \<lparr>RequiredHSTSPolicies = [exBadSelector]\<rparr>
        (exRoute exEdge (Some ''max-age=150'')) exNamespace
       = Returns (Some (SelectorError exSelectorMessage))"
proof -
  have a: "isRouteHSTSAllowed toyLib \<lparr>RequiredHSTSPolicies = [exBadSelector]\<rparr>
        (exRoute exEdge (Some ''max-age=150'')) exNamespace
       = Returns (Some (SelectorError exSelectorMessage))"
    by (simp add: isRouteHSTSAllowed_loop[OF exRoute_terminates] ex_bad)
  have b: "matchesDomain toyLib (DomainPatterns exBadSelector)
        (routeDomains (exRoute exEdge (Some ''max-age=150''))) = Returns False"
    by (simp add: exBadSelector_def ex_domains toy_compile_www)
  from exRoute_terminates ex_bad b a show ?thesis by (intro conjI)
qed

text \<open>
  Claim C4, amended. For a route whose TLS termination is edge or reencrypt, suppose that
  for every requirement of the list the namespace selector is evaluated without error,
  the domain patterns examined for it compile (the match of the domains returns), and
  the selector or the patterns do not match the route, the hosts tried being the host of
  the spec and the hosts of the status. Then the route is allowed, whatever its
  annotation is.
\<close>

theorem C4_no_match_allowed:
  assumes "terminatesTLS route"
    and "\<forall>q \<in> set (RequiredHSTSPolicies ingress).
           \<exists>nsm dm.
             matchesNamespaceSelector L (NamespaceSelector q) ns = (nsm, None)
             \<and> matchesDomain L (DomainPatterns q)
                  (Host (Spec route) # map IngressHost (Ingress (Status route))) = Returns dm
             \<and> \<not> (nsm \<and> dm)"
  shows "isRouteHSTSAllowed L ingress route ns = Returns None"
proof -
  from assms(2) have "list_all (passesOver L route ns) (RequiredHSTSPolicies ingress)"
    unfolding list_all_iff using passesOver_iff[of L route ns] by blast
  from checkRequirements_append[OF this, of "[]"] isRouteHSTSAllowed_loop[OF assms(1), of L ingress ns]
  show ?thesis by simp
qed

text \<open>
  C4 on a requirement for another host, whose missing selector matches and whose pattern
  does not, and an annotation that has no age.
\<close>

theorem C4_witness:
  "terminatesTLS (exRoute exEdge (Some ''preload''))
   \<and> matchesNamespaceSelector toyLib (NamespaceSelector exOtherHost) exNamespace = (True, None)
   \<and> matchesDomain toyLib (DomainPatterns exOtherHost)
        (Host (Spec (exRoute exEdge (Some ''preload'')))
           # map IngressHost (Ingress (Status (exRoute exEdge (Some ''preload'')))))
       = Returns False
   \<and> isRouteHSTSAllowed toyLib \<lparr>RequiredHSTSPolicies = [exOtherHost]\<rparr>
        (exRoute exEdge (Some ''preload'')) exNamespace = Returns None"
proof -
  have h1: "terminatesTLS (exRoute exEdge (Some ''preload''))"
    by (rule exRoute_terminates)
  have n: "matchesNamespaceSelector toyLib (NamespaceSelector exOtherHost) exNamespace
           = (True, None)"
    by (simp add: matchesNamespaceSelector_def exOtherHost_def)
  have d: "matchesDomain toyLib (DomainPatterns exOtherHost)
        (Host (Spec (exRoute exEdge (Some ''preload'')))
           # map IngressHost (Ingress (Status (exRoute exEdge (Some ''preload'')))))
       = Returns False"
    using ex_domains[of exEdge "Some ''preload''"]
    by (simp add: routeDomains_def exOtherHost_def toy_compile_www)
  have h2: "\<forall>q \<in> set (RequiredHSTSPolicies \<lparr>RequiredHSTSPolicies = [exOtherHost]\<rparr>).
           \<exists>nsm dm.
             matchesNamespaceSelector toyLib (NamespaceSelector q) exNamespace = (nsm, None)
             \<and> matchesDomain toyLib (DomainPatterns q)
                  (Host (Spec (exRoute exEdge (Some ''preload'')))
                     # map IngressHost (Ingress (Status (exRoute exEdge (Some ''preload'')))))
                 = Returns dm
             \<and> \<not> (nsm \<and> dm)"
    using n d by auto
  from h1 n d C4_no_match_allowed[OF h1 h2] show ?thesis by (intro conjI)
qed











subsection \<open>The annotation parser\<close>

text \<open>
  Claim C5 says that the annotation \<^verbatim>\<open>maxAge=3600; includeSubDomains; preload\<close>
  parses. The parser looks for \<^verbatim>\<open>max-age=\<close>, with a hyphen, so it fails on this
  annotation with the error "max-age must be set in HSTS annotation".
\<close>

theorem C5_counterexample:
  "hstsConfigFromRoute toyLib (exRoute exEdge (Some ''maxAge=3600; includeSubDomains; preload''))
     = (None, Some MaxAgeNotSet)"
  by (rule ex_parse_camel)

text \<open>
  Claim C5, amended. The annotation \<^verbatim>\<open>max-age=3600; includeSubDomains; preload\<close>
  parses into the configuration with age 3600, includeSubDomains and preload.
\<close>

theorem C5_max_age_parsed:
  assumes "annotationValue route = ''max-age=3600; includeSubDomains; preload''"
  shows "hstsConfigFromRoute L route
           = (Some \<lparr>maxAge = 3600, preload = True, includeSubDomains = True\<rparr>, None)"
  using assms by (rule ex_parse_hyphen)

text \<open>C5 on the example route with that annotation.\<close>

theorem C5_witness:
  "annotationValue (exRoute exEdge (Some ''max-age=3600; includeSubDomains; preload''))
     = ''max-age=3600; includeSubDomains; preload''
   \<and> hstsConfigFromRoute toyLib
        (exRoute exEdge (Some ''max-age=3600; includeSubDomains; preload''))
       = (Some \<lparr>maxAge = 3600, preload = True, includeSubDomains = True\<rparr>, None)"
proof -
  have h: "annotationValue (exRoute exEdge (Some ''max-age=3600; includeSubDomains; preload''))
     = ''max-age=3600; includeSubDomains; preload''"
    by (rule ex_annotation)
  from h C5_max_age_parsed[OF h, of toyLib] show ?thesis by (intro conjI)
qed





end
